theory Spec2Isabelle
  imports Complex_Main "HOL-Library.Sublist" "HOL-Library.Word" "HOL-Library.AList"
begin

section \<open>Strings, errors and formatting\<close>

text \<open>
  Go strings are byte sequences; \<open>strings.Contains\<close>, \<open>strings.HasSuffix\<close> and
  \<open>strings.Index\<close> work on bytes, so they are modelled on \<open>char list\<close>.
\<close>

definition strings_Contains :: "string \<Rightarrow> string \<Rightarrow> bool" where
  "strings_Contains s substr = sublist substr s"

definition strings_HasSuffix :: "string \<Rightarrow> string \<Rightarrow> bool" where
  "strings_HasSuffix s suff = suffix suff s"

text \<open>\<open>strings.Index\<close>: the index of the first occurrence of the substring, or -1.\<close>

fun index_from :: "nat \<Rightarrow> string \<Rightarrow> string \<Rightarrow> int" where
  "index_from i [] substr = (if substr = [] then int i else -1)"
| "index_from i (c # s) substr =
     (if prefix substr (c # s) then int i else index_from (Suc i) s substr)"

definition strings_Index :: "string \<Rightarrow> string \<Rightarrow> int" where
  "strings_Index s substr = index_from 0 s substr"

text \<open>
  ASCII lower-casing. Go's \<open>strings.ToLower\<close> also maps letters outside ASCII; the
  functions below that call it take the lower-casing function as a parameter, and the
  examples instantiate it with this one.
\<close>

definition ascii_lower :: "char \<Rightarrow> char" where
  "ascii_lower c =
     (let n = (of_char c :: nat) in if 65 \<le> n \<and> n \<le> 90 then char_of (n + 32) else c)"

definition ascii_ToLower :: "string \<Rightarrow> string" where
  "ascii_ToLower s = map ascii_lower s"

text \<open>
  Go errors. \<open>Lib\<close> is an error produced by a library or by the operating system
  (only its message is kept); \<open>Errorf msg\<close> is \<open>fmt.Errorf(msg)\<close>;
  \<open>Wrapf msg e\<close> is \<open>fmt.Errorf(msg + ": %w", e)\<close>; \<open>Panic\<close> is a run-time panic.
\<close>

datatype error = Lib string | Errorf string | Wrapf string error | Panic string

text \<open>\<open>%d\<close> and \<open>%v\<close> of an integer: its decimal digits, most significant first.\<close>

function itoa :: "nat \<Rightarrow> string" where
  "itoa n = (if n < 10 then [char_of (48 + n)] else itoa (n div 10) @ [char_of (48 + n mod 10)])"
  by pat_completeness auto
termination
  by (relation "measure id") auto

declare itoa.simps [simp del]

definition sprint_int :: "int \<Rightarrow> string" where
  "sprint_int i = (if i < 0 then CHR ''-'' # itoa (nat (- i)) else itoa (nat i))"

text \<open>The value of a decimal numeral: the inverse of \<open>itoa\<close>.\<close>

definition atoi :: "string \<Rightarrow> nat" where
  "atoi s = foldl (\<lambda>a c. 10 * a + (of_char c - 48)) 0 s"

section \<open>The VDF pivot step (pkg/shortcut/shortcut.go)\<close>

text \<open>
  A \<open>float64\<close> is a finite number, an infinity or a NaN. Every finite \<open>float64\<close> is a
  rational number; the model allows every rational.
\<close>

datatype float64 = Finite rat | PosInf | NegInf | NaN

text \<open>
  The dynamic values an \<open>interface{}\<close> holds in this program. A Go map is an
  association list, in the order the \<open>range\<close> loop visits it; its keys are distinct,
  so that in a loop over a map each assignment \<open>newMap[k] = x\<close> adds an entry.
  \<open>GMap\<close> is a \<open>map[string]interface{}\<close>, \<open>GVdfMap\<close> a \<open>vdf.Map\<close>. Go's \<open>int\<close> is
  taken as 64 bits wide.
\<close>

datatype gvalue =
    GNil
  | GInt "64 word"
  | GInt64 "64 word"
  | GUint32 "32 word"
  | GFloat64 float64
  | GString string
  | GBool bool
  | GSlice "gvalue list"
  | GMap "(string \<times> gvalue) list"
  | GVdfMap "(string \<times> gvalue) list"

text \<open>
  The conversion \<open>uint32(f)\<close> of a \<open>float64\<close> discards the fraction. Where the result
  does not fit, Go leaves the value to the implementation: the parameter \<open>impl\<close>.
\<close>

definition truncate_rat :: "rat \<Rightarrow> int" where
  "truncate_rat r = (if 0 \<le> r then \<lfloor>r\<rfloor> else \<lceil>r\<rceil>)"

definition uint32_of_float64 :: "(float64 \<Rightarrow> 32 word) \<Rightarrow> float64 \<Rightarrow> 32 word" where
  "uint32_of_float64 impl f =
     (case f of
        Finite r \<Rightarrow>
          (let z = truncate_rat r in if 0 \<le> z \<and> z < 2 ^ 32 then word_of_int z else impl f)
      | _ \<Rightarrow> impl f)"

text \<open>
  \<open>ensureVDFMap\<close> as the first listing of shortcut.go has it (lines 71 to 93): a nil
  value is skipped, and so is a value of a type with no case in the type switch.
\<close>

fun ensureVDFMap :: "(float64 \<Rightarrow> 32 word) \<Rightarrow> (string \<times> gvalue) list \<Rightarrow> (string \<times> gvalue) list" where
  "ensureVDFMap impl [] = []"
| "ensureVDFMap impl ((k, v) # m) =
     (case v of
        GNil \<Rightarrow> ensureVDFMap impl m
      | GInt val \<Rightarrow> (k, GUint32 (ucast val)) # ensureVDFMap impl m
      | GInt64 val \<Rightarrow> (k, GUint32 (ucast val)) # ensureVDFMap impl m
      | GFloat64 val \<Rightarrow> (k, GUint32 (uint32_of_float64 impl val)) # ensureVDFMap impl m
      | GString val \<Rightarrow> (k, GString val) # ensureVDFMap impl m
      | GMap val \<Rightarrow> (k, GVdfMap (ensureVDFMap impl val)) # ensureVDFMap impl m
      | _ \<Rightarrow> ensureVDFMap impl m)"

text \<open>
  \<open>ensureVDFMap\<close> as the second listing of shortcut.go has it (lines 190 to 205, the
  file whose \<open>Load\<close> and \<open>Save\<close> go through the remote client). The type assertion
  \<open>v.(uint32)\<close> on a value whose dynamic type is \<open>int\<close> or \<open>int64\<close> panics; the
  \<open>default\<close> case stores the value as it is, a nil interface included.
\<close>

fun ensureVDFMap_remote ::
  "(float64 \<Rightarrow> 32 word) \<Rightarrow> (string \<times> gvalue) list \<Rightarrow> error + (string \<times> gvalue) list" where
  "ensureVDFMap_remote impl [] = Inr []"
| "ensureVDFMap_remote impl ((k, v) # m) =
     (case v of
        GInt val \<Rightarrow> Inl (Panic ''interface conversion: interface {} is int, not uint32'')
      | GInt64 val \<Rightarrow> Inl (Panic ''interface conversion: interface {} is int64, not uint32'')
      | GFloat64 val \<Rightarrow>
          (case ensureVDFMap_remote impl m of
             Inl e \<Rightarrow> Inl e
           | Inr newMap \<Rightarrow> Inr ((k, GUint32 (uint32_of_float64 impl val)) # newMap))
      | GMap val \<Rightarrow>
          (case ensureVDFMap_remote impl val of
             Inl e \<Rightarrow> Inl e
           | Inr sub \<Rightarrow>
               (case ensureVDFMap_remote impl m of
                  Inl e \<Rightarrow> Inl e
                | Inr newMap \<Rightarrow> Inr ((k, GVdfMap sub) # newMap)))
      | _ \<Rightarrow>
          (case ensureVDFMap_remote impl m of
             Inl e \<Rightarrow> Inl e
           | Inr newMap \<Rightarrow> Inr ((k, v) # newMap)))"

text \<open>The types that the drop policy keeps: int-like, float64, string, nested mapping.\<close>

fun supported :: "gvalue \<Rightarrow> bool" where
  "supported (GInt _) = True"
| "supported (GInt64 _) = True"
| "supported (GFloat64 _) = True"
| "supported (GString _) = True"
| "supported (GMap _) = True"
| "supported _ = False"

section \<open>Removing a shortcut by name (cmd/remove.go)\<close>

text \<open>
  Modelled from the spec: the declaration of the \<open>Shortcut\<close> struct is not among the
  sources. The record has the fields that the commands read; \<open>removeCmd\<close> reads
  \<open>AppName\<close> only. \<open>Shortcuts\<close> wraps the map from ordinal key to record, here in the
  order in which the \<open>range\<close> loop visits it.
\<close>

record Shortcut =
  Appid :: int
  AppName :: string
  Exe :: string
  StartDir :: string
  Icon :: string
  LaunchOptions :: string

record Shortcuts =
  Shortcuts :: "(string \<times> Shortcut) list"

text \<open>The first loop of \<open>removeCmd\<close>: the records whose name differs, appended in turn.\<close>

fun remove_filter_loop :: "string \<Rightarrow> Shortcut list \<Rightarrow> (string \<times> Shortcut) list \<Rightarrow> Shortcut list" where
  "remove_filter_loop name shortcutsList [] = shortcutsList"
| "remove_filter_loop name shortcutsList ((k, sc) # rest) =
     (if AppName sc = name then remove_filter_loop name shortcutsList rest
      else remove_filter_loop name (shortcutsList @ [sc]) rest)"

text \<open>
  The second loop: \<open>newShortcuts.Shortcuts[fmt.Sprintf("%v", key)] = sc\<close> for each
  index \<open>key\<close> of the list. The assignment to a map entry is \<open>AList.update\<close>.
\<close>

fun remove_rekey_loop :: "(string \<times> Shortcut) list \<Rightarrow> nat \<Rightarrow> Shortcut list \<Rightarrow> (string \<times> Shortcut) list" where
  "remove_rekey_loop newMap key [] = newMap"
| "remove_rekey_loop newMap key (sc # rest) =
     remove_rekey_loop (AList.update (itoa key) sc newMap) (Suc key) rest"

text \<open>The collection that \<open>removeCmd\<close> hands to \<open>shortcut.Save\<close> for one user.\<close>

definition remove_shortcut :: "string \<Rightarrow> Shortcuts \<Rightarrow> Shortcuts" where
  "remove_shortcut name shortcuts =
     (let shortcutsList = remove_filter_loop name [] (Shortcuts shortcuts)
      in \<lparr>Shortcuts = remove_rekey_loop [] 0 shortcutsList\<rparr>)"

text \<open>
  The outcome in the words of the specification: the records that stay, the records that
  carry the name, and a loaded collection whose keys have gaps and in which two records
  share a name.
\<close>

definition kept_records :: "string \<Rightarrow> Shortcuts \<Rightarrow> Shortcut list" where
  "kept_records name shortcuts = filter (\<lambda>sc. AppName sc \<noteq> name) (map snd (Shortcuts shortcuts))"

definition matching_records :: "string \<Rightarrow> Shortcuts \<Rightarrow> Shortcut list" where
  "matching_records name shortcuts = filter (\<lambda>sc. AppName sc = name) (map snd (Shortcuts shortcuts))"

definition gapped_shortcuts :: Shortcuts where
  "gapped_shortcuts =
     \<lparr>Shortcuts =
        [(''0'', \<lparr>Appid = 1, AppName = ''Game'', Exe = ''/a'', StartDir = ''/'', Icon = '''', LaunchOptions = ''''\<rparr>),
         (''2'', \<lparr>Appid = 2, AppName = ''Other'', Exe = ''/b'', StartDir = ''/'', Icon = '''', LaunchOptions = ''''\<rparr>),
         (''5'', \<lparr>Appid = 3, AppName = ''Game'', Exe = ''/c'', StartDir = ''/'', Icon = '''', LaunchOptions = ''''\<rparr>)]\<rparr>"

section \<open>Artwork: the extension of a downloaded image (pkg/steam/artwork.go)\<close>

text \<open>
  The part of \<open>http.Response\<close> that the code reads: the status code, the value of
  \<open>resp.Header.Get("Content-Type")\<close> (empty when the header is absent) and the outcome
  of reading the body.
\<close>

record Response =
  StatusCode :: int
  ContentType :: string
  Body :: "string + string"

text \<open>\<open>getExtensionFromResponse\<close>, with its two \<open>switch\<close> statements in source order.\<close>

definition getExtensionFromResponse :: "(string \<Rightarrow> string) \<Rightarrow> Response \<Rightarrow> string \<Rightarrow> string" where
  "getExtensionFromResponse toLower resp url =
     (let contentType = ContentType resp in
      if strings_Contains contentType ''png'' then ''.png''
      else if strings_Contains contentType ''jpeg'' \<or> strings_Contains contentType ''jpg'' then ''.jpg''
      else if strings_Contains contentType ''webp'' then ''.webp''
      else if strings_Contains contentType ''gif'' then ''.gif''
      else
        let idx = strings_Index url ''?'';
            urlPath = (if idx \<noteq> -1 then take (nat idx) url else url);
            urlLower = toLower urlPath
        in if strings_HasSuffix urlLower ''.webp'' then ''.webp''
           else if strings_HasSuffix urlLower ''.png'' then ''.png''
           else if strings_HasSuffix urlLower ''.jpg'' \<or> strings_HasSuffix urlLower ''.jpeg'' then ''.jpg''
           else if strings_HasSuffix urlLower ''.gif'' then ''.gif''
           else ''.png'')"

text \<open>
  The rule as the specification words it, to compare with the code: a table of image
  types recognised in the content type, a table of image suffixes recognised in the URL
  path, the URL with its query string removed, and the default.
\<close>

definition content_type_table :: "(string \<times> string) list" where
  "content_type_table =
     [(''png'', ''.png''), (''jpeg'', ''.jpg''), (''jpg'', ''.jpg''),
      (''webp'', ''.webp''), (''gif'', ''.gif'')]"

definition url_suffix_table :: "(string \<times> string) list" where
  "url_suffix_table =
     [(''.webp'', ''.webp''), (''.png'', ''.png''), (''.jpg'', ''.jpg''),
      (''.jpeg'', ''.jpg''), (''.gif'', ''.gif'')]"

definition known_extensions :: "string list" where
  "known_extensions = [''.png'', ''.jpg'', ''.webp'', ''.gif'']"

definition content_type_extension :: "string \<Rightarrow> string option" where
  "content_type_extension ct =
     map_option snd (find (\<lambda>(t, e). strings_Contains ct t) content_type_table)"

definition url_suffix_extension :: "string \<Rightarrow> string option" where
  "url_suffix_extension u =
     map_option snd (find (\<lambda>(s, e). strings_HasSuffix u s) url_suffix_table)"

definition strip_query :: "string \<Rightarrow> string" where
  "strip_query url = takeWhile (\<lambda>c. c \<noteq> CHR ''?'') url"

definition spec_extension :: "(string \<Rightarrow> string) \<Rightarrow> Response \<Rightarrow> string \<Rightarrow> string" where
  "spec_extension toLower resp url =
     (case content_type_extension (ContentType resp) of
        Some e \<Rightarrow> e
      | None \<Rightarrow>
          (case url_suffix_extension (toLower (strip_query url)) of
             Some e \<Rightarrow> e
           | None \<Rightarrow> ''.png''))"

section \<open>The remote client (pkg/remote/remote.go)\<close>

record Config =
  Host :: string
  Port :: int
  User :: string
  Password :: string
  KeyFile :: string

text \<open>
  The two handles of a client are \<open>None\<close> when the Go pointer is nil; a handle is the
  number of the connection it stands for.
\<close>

record Client =
  config :: Config
  sshClient :: "nat option"
  sftpClient :: "nat option"

datatype AuthMethod = ssh_PublicKeys string | ssh_Password string

record FileInfo =
  Name :: string
  IsDir :: bool

text \<open>
  What the libraries and the operating system answer: reading a local file, parsing a
  private key, the home directory (\<open>Connect\<close> ignores the error of \<open>os.UserHomeDir\<close>),
  \<open>path.Join\<close>, dialling, opening the SFTP subsystem, and the SFTP and session
  calls. A failure carries the message of the library's error.
\<close>

record remote_env =
  os_ReadFile :: "string \<Rightarrow> string + string"
  ssh_ParsePrivateKey :: "string \<Rightarrow> string + string"
  os_UserHomeDir :: string
  path_Join :: "string list \<Rightarrow> string"
  ssh_Dial :: "string \<Rightarrow> string \<Rightarrow> AuthMethod list \<Rightarrow> string + nat"
  sftp_NewClient :: "nat \<Rightarrow> string + nat"
  sftp_Stat :: "nat \<Rightarrow> string \<Rightarrow> string + FileInfo"
  sftp_ReadDir :: "nat \<Rightarrow> string \<Rightarrow> string + FileInfo list"
  sftp_Getwd :: "nat \<Rightarrow> string + string"
  ssh_NewSession :: "nat \<Rightarrow> string + nat"
  session_CombinedOutput :: "nat \<Rightarrow> string \<Rightarrow> string \<times> string option"

text \<open>What a call does to the network: the dials it attempts and the handles it closes.\<close>

datatype net_event = Dial string string "AuthMethod list" | SshClose nat | SftpClose nat

definition NewClient :: "Config \<Rightarrow> Client" where
  "NewClient cfg =
     \<lparr>config = (if Port cfg = 0 then cfg\<lparr>Port := 22\<rparr> else cfg),
      sshClient = None, sftpClient = None\<rparr>"

text \<open>The loop of \<open>Connect\<close> over the default key files: the first key that parses.\<close>

fun default_keys_loop :: "'a remote_env_scheme \<Rightarrow> AuthMethod list \<Rightarrow> string list \<Rightarrow> AuthMethod list" where
  "default_keys_loop env authMethods [] = authMethods"
| "default_keys_loop env authMethods (keyPath # rest) =
     (case os_ReadFile env keyPath of
        Inl err \<Rightarrow> default_keys_loop env authMethods rest
      | Inr key \<Rightarrow>
          (case ssh_ParsePrivateKey env key of
             Inl err \<Rightarrow> default_keys_loop env authMethods rest
           | Inr signer \<Rightarrow> authMethods @ [ssh_PublicKeys signer]))"

definition default_key_paths :: "'a remote_env_scheme \<Rightarrow> string list" where
  "default_key_paths env =
     (let homeDir = os_UserHomeDir env in
      [path_Join env [homeDir, ''.ssh'', ''id_rsa''],
       path_Join env [homeDir, ''.ssh'', ''id_ed25519''],
       path_Join env [homeDir, ''.ssh'', ''id_ecdsa'']])"

text \<open>Lines 40 to 78 of \<open>Connect\<close>: the list of authentication methods.\<close>

definition build_auth_methods :: "'a remote_env_scheme \<Rightarrow> Config \<Rightarrow> AuthMethod list" where
  "build_auth_methods env cfg =
     (let authMethods = [];
          authMethods =
            (if KeyFile cfg \<noteq> '''' then
               (case os_ReadFile env (KeyFile cfg) of
                  Inl err \<Rightarrow> authMethods
                | Inr key \<Rightarrow>
                    (case ssh_ParsePrivateKey env key of
                       Inl err \<Rightarrow> authMethods
                     | Inr signer \<Rightarrow> authMethods @ [ssh_PublicKeys signer]))
             else authMethods);
          authMethods =
            (if length authMethods = 0
             then default_keys_loop env authMethods (default_key_paths env)
             else authMethods);
          authMethods =
            (if Password cfg \<noteq> '''' then authMethods @ [ssh_Password (Password cfg)]
             else authMethods)
      in authMethods)"

text \<open>
  \<open>Connect\<close>: the error it returns (\<open>None\<close> for nil), the client as it leaves it, and
  what it did to the network.
\<close>

definition Connect :: "'a remote_env_scheme \<Rightarrow> Client \<Rightarrow> error option \<times> Client \<times> net_event list" where
  "Connect env c =
     (let authMethods = build_auth_methods env (config c) in
      if length authMethods = 0
      then (Some (Errorf ''no authentication method available''), c, [])
      else
        let addr = Host (config c) @ '':'' @ sprint_int (Port (config c)) in
        case ssh_Dial env addr (User (config c)) authMethods of
          Inl err \<Rightarrow>
            (Some (Wrapf (''failed to connect to '' @ addr) (Lib err)), c,
             [Dial addr (User (config c)) authMethods])
        | Inr conn \<Rightarrow>
            let c = c\<lparr>sshClient := Some conn\<rparr> in
            (case sftp_NewClient env conn of
               Inl err \<Rightarrow>
                 (Some (Wrapf ''failed to create SFTP client'' (Lib err)), c,
                  [Dial addr (User (config c)) authMethods, SshClose conn])
             | Inr sub \<Rightarrow>
                 (None, c\<lparr>sftpClient := Some sub\<rparr>,
                  [Dial addr (User (config c)) authMethods])))"

definition Close :: "Client \<Rightarrow> error option \<times> net_event list" where
  "Close c =
     (None,
      (case sftpClient c of None \<Rightarrow> [] | Some sub \<Rightarrow> [SftpClose sub]) @
      (case sshClient c of None \<Rightarrow> [] | Some conn \<Rightarrow> [SshClose conn]))"

definition Stat :: "'a remote_env_scheme \<Rightarrow> Client \<Rightarrow> string \<Rightarrow> error + FileInfo" where
  "Stat env c remotePath =
     (case sftpClient c of
        None \<Rightarrow> Inl (Errorf ''not connected'')
      | Some sub \<Rightarrow>
          (case sftp_Stat env sub remotePath of Inl err \<Rightarrow> Inl (Lib err) | Inr info \<Rightarrow> Inr info))"

definition ReadDir :: "'a remote_env_scheme \<Rightarrow> Client \<Rightarrow> string \<Rightarrow> error + FileInfo list" where
  "ReadDir env c remotePath =
     (case sftpClient c of
        None \<Rightarrow> Inl (Errorf ''not connected'')
      | Some sub \<Rightarrow>
          (case sftp_ReadDir env sub remotePath of Inl err \<Rightarrow> Inl (Lib err) | Inr files \<Rightarrow> Inr files))"

definition FileExists :: "'a remote_env_scheme \<Rightarrow> Client \<Rightarrow> string \<Rightarrow> bool" where
  "FileExists env c remotePath =
     (case Stat env c remotePath of Inl err \<Rightarrow> False | Inr info \<Rightarrow> True)"

definition GetHomeDir :: "'a remote_env_scheme \<Rightarrow> Client \<Rightarrow> error + string" where
  "GetHomeDir env c =
     (case sftpClient c of
        None \<Rightarrow> Inl (Errorf ''not connected'')
      | Some sub \<Rightarrow>
          (case sftp_Getwd env sub of Inl err \<Rightarrow> Inl (Lib err) | Inr dir \<Rightarrow> Inr dir))"

text \<open>\<open>RunCommand\<close> returns the output and the error; it is gated on the SSH handle.\<close>

definition RunCommand :: "'a remote_env_scheme \<Rightarrow> Client \<Rightarrow> string \<Rightarrow> string \<times> error option" where
  "RunCommand env c command =
     (case sshClient c of
        None \<Rightarrow> ('''', Some (Errorf ''not connected''))
      | Some conn \<Rightarrow>
          (case ssh_NewSession env conn of
             Inl err \<Rightarrow> ('''', Some (Wrapf ''failed to create session'' (Lib err)))
           | Inr session \<Rightarrow>
               (case session_CombinedOutput env session command of
                  (output, None) \<Rightarrow> (output, None)
                | (output, Some err) \<Rightarrow> (output, Some (Lib err)))))"

text \<open>
  The authentication methods in the words of the specification: a key is usable when its
  file can be read and parses; the explicit key file if configured and usable, otherwise
  the first usable default key; then the password if configured.
\<close>

definition usable_key :: "'a remote_env_scheme \<Rightarrow> string \<Rightarrow> string option" where
  "usable_key env keyPath =
     (case os_ReadFile env keyPath of
        Inl err \<Rightarrow> None
      | Inr key \<Rightarrow> (case ssh_ParsePrivateKey env key of Inl err \<Rightarrow> None | Inr signer \<Rightarrow> Some signer))"

definition configured_key :: "'a remote_env_scheme \<Rightarrow> Config \<Rightarrow> string option" where
  "configured_key env cfg = (if KeyFile cfg = '''' then None else usable_key env (KeyFile cfg))"

definition spec_auth_methods :: "'a remote_env_scheme \<Rightarrow> Config \<Rightarrow> AuthMethod list" where
  "spec_auth_methods env cfg =
     (case configured_key env cfg of
        Some signer \<Rightarrow> [ssh_PublicKeys signer]
      | None \<Rightarrow> map ssh_PublicKeys (take 1 (List.map_filter (usable_key env) (default_key_paths env))))
     @ (if Password cfg = '''' then [] else [ssh_Password (Password cfg)])"

definition dial_address :: "Config \<Rightarrow> string" where
  "dial_address cfg = Host cfg @ '':'' @ sprint_int (Port cfg)"

text \<open>Examples: joining path elements with a slash, and a Steam Deck reached by password.\<close>

definition slash_join :: "string list \<Rightarrow> string" where
  "slash_join elems = foldr (\<lambda>e rest. if rest = [] then e else e @ ''/'' @ rest) elems []"

definition deck_config :: Config where
  "deck_config = \<lparr>Host = ''deck'', Port = 0, User = ''deck'', Password = ''secret'', KeyFile = ''/keys/broken''\<rparr>"

definition deck_files :: "FileInfo list" where
  "deck_files =
     [\<lparr>Name = ''111'', IsDir = True\<rparr>, \<lparr>Name = ''ac.txt'', IsDir = False\<rparr>, \<lparr>Name = ''222'', IsDir = True\<rparr>]"

text \<open>
  An environment with no usable key, in which dialling succeeds with connection 1 and the
  SFTP subsystem, when it opens, is handle 2, with home directory \<open>/home/deck\<close>.
\<close>

definition deck_env :: "bool \<Rightarrow> remote_env" where
  "deck_env sftp_ok =
     \<lparr>os_ReadFile = (\<lambda>p. if p = ''/keys/broken'' then Inr ''garbage'' else Inl ''no such file''),
      ssh_ParsePrivateKey = (\<lambda>key. Inl ''ssh: no key found''),
      os_UserHomeDir = ''/home/me'',
      path_Join = slash_join,
      ssh_Dial = (\<lambda>addr user auth. Inr 1),
      sftp_NewClient = (\<lambda>conn. if sftp_ok then Inr 2 else Inl ''subsystem request failed''),
      sftp_Stat = (\<lambda>sub p. if p = ''/home/deck/.steam/steam/userdata''
                             then Inr \<lparr>Name = ''userdata'', IsDir = True\<rparr> else Inl ''file does not exist''),
      sftp_ReadDir = (\<lambda>sub p. if p = ''/home/deck/.steam/steam/userdata''
                             then Inr deck_files else Inl ''file does not exist''),
      sftp_Getwd = (\<lambda>sub. Inr ''/home/deck''),
      ssh_NewSession = (\<lambda>conn. if sftp_ok then Inr 3 else Inl ''use of closed network connection''),
      session_CombinedOutput = (\<lambda>session command. ('''', None))\<rparr>"

definition deck_client :: Client where
  "deck_client = \<lparr>config = deck_config\<lparr>Port := 22\<rparr>, sshClient = Some 1, sftpClient = Some 2\<rparr>"

section \<open>Remote locations (pkg/steam/remote.go)\<close>

text \<open>
  The package variable \<open>RemoteClient\<close> is a parameter, \<open>None\<close> when it is nil; a method
  called on a nil client dereferences it and panics.
\<close>

definition nil_dereference :: error where
  "nil_dereference = Panic ''invalid memory address or nil pointer dereference''"

definition GetRemoteBaseDir :: "'a remote_env_scheme \<Rightarrow> Client option \<Rightarrow> error + string" where
  "GetRemoteBaseDir env remoteClient =
     (case remoteClient of
        None \<Rightarrow> Inl nil_dereference
      | Some c \<Rightarrow>
          (case GetHomeDir env c of
             Inl err \<Rightarrow> Inl err
           | Inr homeDir \<Rightarrow> Inr (path_Join env [homeDir, ''.steam'', ''steam''])))"

definition GetRemoteUserDir :: "'a remote_env_scheme \<Rightarrow> Client option \<Rightarrow> error + string" where
  "GetRemoteUserDir env remoteClient =
     (case GetRemoteBaseDir env remoteClient of
        Inl err \<Rightarrow> Inl err
      | Inr baseDir \<Rightarrow> Inr (path_Join env [baseDir, ''userdata'']))"

text \<open>The loop of \<open>GetRemoteUsers\<close> over the directory entries.\<close>

fun users_loop :: "string list \<Rightarrow> FileInfo list \<Rightarrow> string list" where
  "users_loop users [] = users"
| "users_loop users (f # files) =
     (if \<not> IsDir f then users_loop users files else users_loop (users @ [Name f]) files)"

definition GetRemoteUsers :: "'a remote_env_scheme \<Rightarrow> Client option \<Rightarrow> error + string list" where
  "GetRemoteUsers env remoteClient =
     (case GetRemoteUserDir env remoteClient of
        Inl err \<Rightarrow> Inl err
      | Inr userDir \<Rightarrow>
          (case remoteClient of
             None \<Rightarrow> Inl nil_dereference
           | Some c \<Rightarrow>
               (case ReadDir env c userDir of
                  Inl err \<Rightarrow> Inl err
                | Inr files \<Rightarrow> Inr (users_loop [] files))))"

section \<open>Applying artwork (pkg/steam/artwork.go)\<close>

datatype AssetType =
    AssetTypeGridPortrait
  | AssetTypeHero
  | AssetTypeLogo
  | AssetTypeGridLandscape
  | AssetTypeIcon

record ArtworkConfig =
  GridPortrait :: string
  GridLandscape :: string
  HeroImage :: string
  LogoImage :: string
  IconImage :: string

text \<open>
  The environment of the artwork code extends that of the remote client with the package
  variable \<open>RemoteClient\<close>; the local \<open>GetUsers\<close> and \<open>GetUserDir\<close>, whose source is
  not among the files; the local process execution behind \<open>runCommand\<close>; and the
  outcomes of \<open>SetArtworkViaCEF\<close> and \<open>uploadArtworkToGrid\<close>, which download an image
  and drive Steam or the file system (\<open>None\<close> is a nil error). \<open>SetArtwork\<close> calls
  each of the two at most once for any given arguments.
\<close>

record steam_env = remote_env +
  RemoteClient :: "Client option"
  GetUsers :: "error + string list"
  GetUserDir :: "error + string"
  exec_CombinedOutput :: "string \<Rightarrow> string list \<Rightarrow> string \<times> string option"
  SetArtworkViaCEF :: "64 word \<Rightarrow> string \<Rightarrow> AssetType \<Rightarrow> error option"
  uploadArtworkToGrid :: "string \<Rightarrow> string \<Rightarrow> string \<Rightarrow> error option"

definition IsRemote :: "'a steam_env_scheme \<Rightarrow> bool" where
  "IsRemote env = (RemoteClient env \<noteq> None)"

definition runCommand :: "'a steam_env_scheme \<Rightarrow> string \<Rightarrow> string list \<Rightarrow> string \<times> error option" where
  "runCommand env name args =
     (case RemoteClient env of
        Some c \<Rightarrow>
          (let cmdStr = foldl (\<lambda>cmdStr arg. cmdStr @ '' '' @ arg) name args
           in RunCommand env c (cmdStr @ '' 2>&1''))
      | None \<Rightarrow>
          (case exec_CombinedOutput env name args of
             (output, None) \<Rightarrow> (output, None)
           | (output, Some err) \<Rightarrow> (output, Some (Lib err))))"

definition checkAiohttpAvailable :: "'a steam_env_scheme \<Rightarrow> bool" where
  "checkAiohttpAvailable env =
     (case runCommand env ''python3'' [''-c'', ''import aiohttp''] of
        (output, Some err) \<Rightarrow> False
      | (output, None) \<Rightarrow>
          \<not> strings_Contains output ''ModuleNotFoundError'' \<and> \<not> strings_Contains output ''No module'')"

definition getGridPath :: "'a steam_env_scheme \<Rightarrow> error + string" where
  "getGridPath env =
     (if IsRemote env then
        (case GetRemoteUsers env (RemoteClient env) of
           Inl err \<Rightarrow> Inl (Errorf ''no Steam users found'')
         | Inr users \<Rightarrow>
             if length users = 0 then Inl (Errorf ''no Steam users found'')
             else
               let userDir = (case GetRemoteUserDir env (RemoteClient env) of
                                Inl err \<Rightarrow> '''' | Inr dir \<Rightarrow> dir)
               in Inr (path_Join env [userDir, users ! 0, ''config'', ''grid'']))
      else
        (case GetUsers env of
           Inl err \<Rightarrow> Inl (Errorf ''no Steam users found'')
         | Inr users \<Rightarrow>
             if length users = 0 then Inl (Errorf ''no Steam users found'')
             else
               (case GetUserDir env of
                  Inl err \<Rightarrow> Inl err
                | Inr userDir \<Rightarrow> Inr (path_Join env [userDir, users ! 0, ''config'', ''grid'']))))"

text \<open>
  What \<open>SetArtwork\<close> does, in order: the injections it attempts, the directories it
  creates, the uploads it attempts and the lines it prints.
\<close>

datatype log_line =
    CefFailed string error
  | UploadFailed string error
  | IconFailed error
  | Info string

datatype art_event =
    TryCEF "64 word" string AssetType
  | MkdirAll string
  | TryUpload string string string
  | Print log_line

text \<open>The closure \<open>applyOne\<close> of \<open>SetArtwork\<close>, with the variables it captures.\<close>

definition applyOne ::
  "'a steam_env_scheme \<Rightarrow> bool \<Rightarrow> string \<Rightarrow> 64 word \<Rightarrow> string \<Rightarrow> string \<Rightarrow> AssetType \<Rightarrow> art_event list" where
  "applyOne env canUseSteamAPI gridPath appID url baseName assetType =
     (if url = '''' then []
      else
        let (success, tried) =
              (if canUseSteamAPI then
                 (case SetArtworkViaCEF env appID url assetType of
                    Some err \<Rightarrow> (False, [TryCEF appID url assetType, Print (CefFailed baseName err)])
                  | None \<Rightarrow> (True, [TryCEF appID url assetType]))
               else (False, []))
        in if \<not> success then
             tried @ [MkdirAll gridPath, TryUpload url gridPath baseName] @
             (case uploadArtworkToGrid env url gridPath baseName of
                Some err \<Rightarrow> [Print (UploadFailed baseName err)]
              | None \<Rightarrow> [])
           else tried)"

text \<open>\<open>SetArtwork\<close>: the error it returns and what it did. A nil configuration is \<open>None\<close>.\<close>

definition SetArtwork ::
  "'a steam_env_scheme \<Rightarrow> 64 word \<Rightarrow> ArtworkConfig option \<Rightarrow> error option \<times> art_event list" where
  "SetArtwork env appID artwork =
     (case artwork of
        None \<Rightarrow> (None, [])
      | Some artwork \<Rightarrow>
          let canUseSteamAPI = checkAiohttpAvailable env in
          (case getGridPath env of
             Inl err \<Rightarrow> (Some (Wrapf ''failed to get grid path'' err), [])
           | Inr gridPath \<Rightarrow>
               let id = itoa (unat appID);
                   info = (if \<not> canUseSteamAPI then
                             [Print (Info ''[INFO] Using filesystem method for artwork (static images only)''),
                              Print (Info ''[INFO] To enable animated WebP/GIF, install: pip install --user aiohttp'')]
                           else []);
                   portrait = applyOne env canUseSteamAPI gridPath appID
                                (GridPortrait artwork) (id @ ''p'') AssetTypeGridPortrait;
                   landscape = applyOne env canUseSteamAPI gridPath appID
                                (GridLandscape artwork) id AssetTypeGridLandscape;
                   hero = applyOne env canUseSteamAPI gridPath appID
                                (HeroImage artwork) (id @ ''_hero'') AssetTypeHero;
                   logo = applyOne env canUseSteamAPI gridPath appID
                                (LogoImage artwork) (id @ ''_logo'') AssetTypeLogo;
                   icon = (if IconImage artwork \<noteq> '''' then
                             [MkdirAll gridPath, TryUpload (IconImage artwork) gridPath (id @ ''_icon'')] @
                             (case uploadArtworkToGrid env (IconImage artwork) gridPath (id @ ''_icon'') of
                                Some err \<Rightarrow> [Print (IconFailed err)]
                              | None \<Rightarrow> [])
                           else [])
               in (None, info @ portrait @ landscape @ hero @ logo @ icon)))"

text \<open>
  The slots in the words of the specification: the four that are first offered to the
  Steam API, each with its URL, file name and asset type; what it means for a slot to have
  been processed in a trace (with the Steam API available the injection was attempted,
  and unless it succeeded its failure was printed and the upload was attempted; a failed
  upload was printed); and when no user is discoverable.
\<close>

definition artwork_slots :: "64 word \<Rightarrow> ArtworkConfig \<Rightarrow> (string \<times> string \<times> AssetType) list" where
  "artwork_slots appID artwork =
     [(GridPortrait artwork, itoa (unat appID) @ ''p'', AssetTypeGridPortrait),
      (GridLandscape artwork, itoa (unat appID), AssetTypeGridLandscape),
      (HeroImage artwork, itoa (unat appID) @ ''_hero'', AssetTypeHero),
      (LogoImage artwork, itoa (unat appID) @ ''_logo'', AssetTypeLogo)]"

definition upload_done ::
  "'a steam_env_scheme \<Rightarrow> string \<Rightarrow> art_event list \<Rightarrow> string \<Rightarrow> string \<Rightarrow> bool" where
  "upload_done env gridPath trace url baseName =
     (TryUpload url gridPath baseName \<in> set trace
      \<and> (case uploadArtworkToGrid env url gridPath baseName of
            None \<Rightarrow> True
          | Some err \<Rightarrow> Print (UploadFailed baseName err) \<in> set trace))"

definition slot_processed ::
  "'a steam_env_scheme \<Rightarrow> 64 word \<Rightarrow> string \<Rightarrow> art_event list \<Rightarrow> string \<times> string \<times> AssetType \<Rightarrow> bool" where
  "slot_processed env appID gridPath trace slot =
     (case slot of (url, baseName, assetType) \<Rightarrow>
        url = ''''
        \<or> (if checkAiohttpAvailable env
            then TryCEF appID url assetType \<in> set trace
                 \<and> (case SetArtworkViaCEF env appID url assetType of
                       None \<Rightarrow> True
                     | Some err \<Rightarrow>
                         Print (CefFailed baseName err) \<in> set trace
                         \<and> upload_done env gridPath trace url baseName)
            else upload_done env gridPath trace url baseName))"

definition icon_processed ::
  "'a steam_env_scheme \<Rightarrow> 64 word \<Rightarrow> string \<Rightarrow> art_event list \<Rightarrow> ArtworkConfig \<Rightarrow> bool" where
  "icon_processed env appID gridPath trace artwork =
     (IconImage artwork = ''''
      \<or> (TryUpload (IconImage artwork) gridPath (itoa (unat appID) @ ''_icon'') \<in> set trace
          \<and> (case uploadArtworkToGrid env (IconImage artwork) gridPath (itoa (unat appID) @ ''_icon'') of
                None \<Rightarrow> True
              | Some err \<Rightarrow> Print (IconFailed err) \<in> set trace)))"

definition no_users :: "error + string list \<Rightarrow> bool" where
  "no_users r = (case r of Inl err \<Rightarrow> True | Inr users \<Rightarrow> users = [])"

definition discovered_users :: "'a steam_env_scheme \<Rightarrow> error + string list" where
  "discovered_users env =
     (if IsRemote env then GetRemoteUsers env (RemoteClient env) else GetUsers env)"

text \<open>
  A desktop in local mode with one Steam user, where the Steam API is available but
  refuses the portrait and the hero, and the download of the portrait fails.
\<close>

definition desktop_env :: steam_env where
  "desktop_env =
     \<lparr>os_ReadFile = (\<lambda>p. Inl ''no such file''),
      ssh_ParsePrivateKey = (\<lambda>key. Inl ''ssh: no key found''),
      os_UserHomeDir = ''/home/me'',
      path_Join = slash_join,
      ssh_Dial = (\<lambda>addr user auth. Inl ''connection refused''),
      sftp_NewClient = (\<lambda>conn. Inl ''closed''),
      sftp_Stat = (\<lambda>sub p. Inl ''closed''),
      sftp_ReadDir = (\<lambda>sub p. Inl ''closed''),
      sftp_Getwd = (\<lambda>sub. Inl ''closed''),
      ssh_NewSession = (\<lambda>conn. Inl ''closed''),
      session_CombinedOutput = (\<lambda>session command. ('''', Some ''closed'')),
      RemoteClient = None,
      GetUsers = Inr [''111''],
      GetUserDir = Inr ''/home/me/.steam/steam/userdata'',
      exec_CombinedOutput = (\<lambda>name args. ('''', None)),
      SetArtworkViaCEF = (\<lambda>appID url assetType.
         if assetType = AssetTypeGridPortrait \<or> assetType = AssetTypeHero
         then Some (Errorf ''Steam CEF API error: ERROR: Steam SharedJSContext tab not found'')
         else None),
      uploadArtworkToGrid = (\<lambda>url gridPath baseName.
         if url = ''http://img/p.png'' then Some (Errorf ''failed to download artwork: HTTP 404'')
         else None)\<rparr>"

definition desktop_artwork :: ArtworkConfig where
  "desktop_artwork =
     \<lparr>GridPortrait = ''http://img/p.png'', GridLandscape = '''', HeroImage = ''http://img/h.jpg'',
      LogoImage = ''http://img/l.png'', IconImage = ''http://img/i.png''\<rparr>"

section \<open>Artwork from SteamGridDB (pkg/steamgriddb/artwork.go)\<close>

text \<open>
  Modelled from the spec: the client of the artwork source and its response types are
  not among the sources. A fetch returns an error or a response whose \<open>Data\<close> is an
  ordered list of results, each with a numeric id and a URL.
\<close>

record sgdb_item =
  ID :: int
  URL :: string

record sgdb_response =
  Data :: "sgdb_item list"

datatype grid_filter = FilterGridVertical | FilterGridHorizontal

record sgdb_client =
  GetGrids :: "string \<Rightarrow> grid_filter \<Rightarrow> error + sgdb_response"
  GetHeroes :: "string \<Rightarrow> error + sgdb_response"
  GetLogos :: "string \<Rightarrow> error + sgdb_response"
  GetIcons :: "string \<Rightarrow> error + sgdb_response"

text \<open>
  \<open>FetchArtworkConfig\<close>, one assignment to the configuration after the other. The
  result is the pair of the Go function: \<open>Inr config\<close> is \<open>(config, nil)\<close>.
\<close>

definition FetchArtworkConfig :: "sgdb_client \<Rightarrow> string \<Rightarrow> error + ArtworkConfig" where
  "FetchArtworkConfig c gameID =
     (let config = \<lparr>GridPortrait = '''', GridLandscape = '''', HeroImage = '''',
                    LogoImage = '''', IconImage = ''''\<rparr>;
          config = (case GetGrids c gameID FilterGridVertical of
                      Inr gridsPortrait \<Rightarrow>
                        if length (Data gridsPortrait) > 0
                        then config\<lparr>GridPortrait := URL (Data gridsPortrait ! 0)\<rparr> else config
                    | Inl err \<Rightarrow> config);
          config = (case GetGrids c gameID FilterGridHorizontal of
                      Inr gridsLandscape \<Rightarrow>
                        if length (Data gridsLandscape) > 0
                        then config\<lparr>GridLandscape := URL (Data gridsLandscape ! 0)\<rparr> else config
                    | Inl err \<Rightarrow> config);
          config = (case GetHeroes c gameID of
                      Inr heroes \<Rightarrow>
                        if length (Data heroes) > 0
                        then config\<lparr>HeroImage := URL (Data heroes ! 0)\<rparr> else config
                    | Inl err \<Rightarrow> config);
          config = (case GetLogos c gameID of
                      Inr logos \<Rightarrow>
                        if length (Data logos) > 0
                        then config\<lparr>LogoImage := URL (Data logos ! 0)\<rparr> else config
                    | Inl err \<Rightarrow> config);
          config = (case GetIcons c gameID of
                      Inr icons \<Rightarrow>
                        if length (Data icons) > 0
                        then config\<lparr>IconImage := URL (Data icons ! 0)\<rparr> else config
                    | Inl err \<Rightarrow> config)
      in Inr config)"

text \<open>The URL a slot is expected to hold after a fetch: the first result's, or none.\<close>

definition first_url :: "error + sgdb_response \<Rightarrow> string" where
  "first_url r =
     (case r of
        Inl err \<Rightarrow> ''''
      | Inr resp \<Rightarrow> (case Data resp of [] \<Rightarrow> '''' | item # rest \<Rightarrow> URL item))"

text \<open>Whether a fetch succeeded with at least one result.\<close>

definition has_result :: "error + sgdb_response \<Rightarrow> bool" where
  "has_result r = (case r of Inl err \<Rightarrow> False | Inr resp \<Rightarrow> Data resp \<noteq> [])"

section \<open>Properties\<close>

subsection \<open>The extension of a downloaded image\<close>

lemma index_from_question:
  "index_from i s ''?'' =
     (if CHR ''?'' \<in> set s then int (i + length (takeWhile (\<lambda>c. c \<noteq> CHR ''?'') s)) else -1)"
  by (induction s arbitrary: i) auto

lemma url_path_strip_query:
  "(if strings_Index url ''?'' \<noteq> -1 then take (nat (strings_Index url ''?'')) url else url)
     = strip_query url"
proof (cases "CHR ''?'' \<in> set url")
  case True
  have "take (length (takeWhile (\<lambda>c. c \<noteq> CHR ''?'') url)) url = takeWhile (\<lambda>c. c \<noteq> CHR ''?'') url"
    by (rule takeWhile_eq_take [symmetric])
  with True show ?thesis
    by (simp add: strings_Index_def strip_query_def index_from_question)
next
  case False
  then have "takeWhile (\<lambda>c. c \<noteq> CHR ''?'') url = url"
    by auto
  show ?thesis
    unfolding strings_Index_def strip_query_def index_from_question \<open>takeWhile (\<lambda>c. c \<noteq> CHR ''?'') url = url\<close>
    using False by simp
qed

text \<open>
  C8 (as amended). The extension chosen for a downloaded image follows the priority of
  the specification: the extension of the first image type recognised in the
  Content-Type header; otherwise the extension of the image suffix that ends the URL
  once its query string is removed and it is lower-cased, which is the suffix itself
  except that \<open>.jpeg\<close> is saved as \<open>.jpg\<close>; otherwise \<open>.png\<close>. The function is total
  and its result is always one of \<open>.png\<close>, \<open>.jpg\<close>, \<open>.webp\<close> and \<open>.gif\<close>.
\<close>

theorem getExtensionFromResponse_priority:
  "getExtensionFromResponse toLower resp url = spec_extension toLower resp url
   \<and> getExtensionFromResponse toLower resp url \<in> set known_extensions"
  unfolding getExtensionFromResponse_def spec_extension_def Let_def url_path_strip_query
  by (simp add: content_type_extension_def url_suffix_extension_def content_type_table_def
      url_suffix_table_def known_extensions_def)

text \<open>
  C8 as stated fails for a URL that ends in \<open>.jpeg\<close>: that suffix is a known image
  suffix of the code, and the extension used is \<open>.jpg\<close>, not the suffix.
\<close>

theorem getExtensionFromResponse_jpeg_counterexample:
  "strings_HasSuffix (ascii_ToLower (strip_query ''http://img/cover.JPEG?w=600'')) ''.jpeg''
   \<and> getExtensionFromResponse ascii_ToLower
       \<lparr>StatusCode = 200, ContentType = ''application/octet-stream'', Body = Inr ''''\<rparr>
       ''http://img/cover.JPEG?w=600'' = ''.jpg''
   \<and> getExtensionFromResponse ascii_ToLower
       \<lparr>StatusCode = 200, ContentType = ''application/octet-stream'', Body = Inr ''''\<rparr>
       ''http://img/cover.JPEG?w=600'' \<noteq> ''.jpeg''"
  by code_simp

lemma getExtensionFromResponse_examples:
  "getExtensionFromResponse ascii_ToLower
     \<lparr>StatusCode = 200, ContentType = ''image/webp'', Body = Inr ''''\<rparr> ''http://img/a.png'' = ''.webp''"
  "getExtensionFromResponse ascii_ToLower
     \<lparr>StatusCode = 200, ContentType = ''application/octet-stream'', Body = Inr ''''\<rparr>
     ''http://img/a.JPEG?size=big.gif'' = ''.jpg''"
  "getExtensionFromResponse ascii_ToLower
     \<lparr>StatusCode = 200, ContentType = '''', Body = Inr ''''\<rparr> ''http://img/a.bmp'' = ''.png''"
  by code_simp+

subsection \<open>The VDF pivot step\<close>

lemma ensureVDFMap_keys:
  "fst ` set (ensureVDFMap impl m) = {k. \<exists>v. (k, v) \<in> set m \<and> supported v}"
proof (induction m)
  case Nil
  show ?case by simp
next
  case (Cons kv m)
  obtain k v where kv: "kv = (k, v)" by (cases kv)
  show ?case unfolding kv using Cons.IH
    by (cases v) (auto simp: image_iff)
qed

lemma ensureVDFMap_drops:
  assumes "distinct (map fst m)" and "map_of m k = Some v" and "\<not> supported v"
  shows "map_of (ensureVDFMap impl m) k = None"
proof -
  have "\<And>v'. (k, v') \<in> set m \<Longrightarrow> v' = v"
    using assms(1,2) by (metis map_of_eq_Some_iff option.inject)
  with assms(3) have "k \<notin> fst ` set (ensureVDFMap impl m)"
    unfolding ensureVDFMap_keys by auto
  then show ?thesis by (simp add: map_of_eq_None_iff)
qed

lemma truncate_rat_of_int: "truncate_rat (of_int z) = z"
  by (simp only: truncate_rat_def floor_of_int ceiling_of_int if_cancel)

lemma uint32_of_whole: "uint32_of_float64 impl (Finite (of_int (uint (v :: 32 word)))) = v"
proof -
  have "uint v < 2 ^ 32"
    using uint_bounded [of v] by simp
  then show ?thesis
    by (simp only: uint32_of_float64_def float64.case Let_def truncate_rat_of_int
        uint_ge_0 simp_thms if_True word_of_int_uint)
qed

lemma ucast_ucast_32_64: "(ucast (ucast (v :: 32 word) :: 64 word) :: 32 word) = v"
  by (rule ucast_up_ucast_id) (simp add: is_up)

lemma ensureVDFMap_numeric:
  fixes v :: "32 word"
  assumes "map_of m k = Some x"
    and "x = GInt (ucast v) \<or> x = GInt64 (ucast v) \<or> x = GFloat64 (Finite (of_int (uint v)))"
  shows "map_of (ensureVDFMap impl m) k = Some (GUint32 v)"
  using assms
proof (induction m)
  case Nil
  then show ?case by simp
next
  case (Cons kv m)
  obtain k' v' where kv: "kv = (k', v')" by (cases kv)
  show ?case
  proof (cases "k' = k")
    case True
    with Cons.prems kv have "v' = x" by simp
    with Cons.prems(2) True kv show ?thesis
      using uint32_of_whole [of impl v] by (auto simp: ucast_ucast_32_64)
  next
    case False
    with Cons kv have "map_of (ensureVDFMap impl m) k = Some (GUint32 v)" by simp
    with False kv show ?thesis by (cases v') auto
  qed
qed

text \<open>
  C1. The drop policy holds for the first listing of \<open>ensureVDFMap\<close> (lemmas
  \<open>ensureVDFMap_keys\<close> and \<open>ensureVDFMap_drops\<close>: a key whose value is nil or of
  an unsupported type is absent from the result). The second listing, the one whose
  \<open>Save\<close> writes through the remote client, breaks it: its \<open>default\<close> case stores a
  nil value and a list under their keys, where the first listing omits both.
\<close>

theorem ensureVDFMap_remote_keeps_nil_and_list:
  "ensureVDFMap_remote impl
     [(''appname'', GString ''Game''), (''icon'', GNil), (''tags'', GSlice [])]
   = Inr [(''appname'', GString ''Game''), (''icon'', GNil), (''tags'', GSlice [])]
   \<and> ensureVDFMap impl
     [(''appname'', GString ''Game''), (''icon'', GNil), (''tags'', GSlice [])]
   = [(''appname'', GString ''Game'')]"
  by simp


subsection \<open>Removing a shortcut by name\<close>

lemma atoi_snoc: "atoi (s @ [c]) = 10 * atoi s + (of_char c - 48)"
  by (simp add: atoi_def)

lemma digit_value: "d < 10 \<Longrightarrow> (of_char (char_of (48 + d)) :: nat) - 48 = d"
  by simp

lemma atoi_itoa: "atoi (itoa n) = n"
proof (induction n rule: itoa.induct)
  case (1 n)
  show ?case
  proof (cases "n < 10")
    case True
    then show ?thesis
      by (subst itoa.simps) (simp add: atoi_def)
  next
    case False
    have "n mod 10 < 10" by simp
    then have d: "(of_char (char_of (48 + n mod 10)) :: nat) - 48 = n mod 10"
      by (rule digit_value)
    from False have "atoi (itoa n) = 10 * atoi (itoa (n div 10)) + n mod 10"
      by (subst itoa.simps) (simp only: if_False atoi_snoc d)
    with False "1.IH" show ?thesis by simp
  qed
qed

lemma itoa_inj: "itoa a = itoa b \<Longrightarrow> a = b"
  by (metis atoi_itoa)

lemma remove_filter_loop_eq:
  "remove_filter_loop name acc m = acc @ filter (\<lambda>sc. AppName sc \<noteq> name) (map snd m)"
  by (induction name acc m rule: remove_filter_loop.induct) simp_all

lemma update_fresh: "k \<notin> fst ` set m \<Longrightarrow> AList.update k v m = m @ [(k, v)]"
  by (induction m) (auto simp: image_iff)

lemma remove_rekey_loop_eq:
  "fst ` set m \<subseteq> itoa ` {..<key} \<Longrightarrow>
   remove_rekey_loop m key l = m @ zip (map itoa [key..<key + length l]) l"
proof (induction m key l rule: remove_rekey_loop.induct)
  case (1 newMap key)
  show ?case by simp
next
  case (2 newMap key sc rest)
  have fresh: "itoa key \<notin> fst ` set newMap"
  proof
    assume "itoa key \<in> fst ` set newMap"
    with "2.prems" obtain j where "j < key" and "itoa key = itoa j" by blast
    then show False using itoa_inj [of key j] by simp
  qed
  then have upd: "AList.update (itoa key) sc newMap = newMap @ [(itoa key, sc)]"
    by (rule update_fresh)
  have sub: "fst ` set (AList.update (itoa key) sc newMap) \<subseteq> itoa ` {..<Suc key}"
    unfolding upd using "2.prems" by (auto simp: lessThan_Suc)
  have len: "key + length (sc # rest) = Suc key + length rest"
    by simp
  have upt: "[key..<Suc key + length rest] = key # [Suc key..<Suc key + length rest]"
    by (rule upt_conv_Cons) simp
  have "remove_rekey_loop newMap key (sc # rest)
        = remove_rekey_loop (AList.update (itoa key) sc newMap) (Suc key) rest"
    by simp
  also have "\<dots> = AList.update (itoa key) sc newMap
                 @ zip (map itoa [Suc key..<Suc key + length rest]) rest"
    by (rule "2.IH" [OF sub])
  also have "\<dots> = newMap @ zip (map itoa [key..<key + length (sc # rest)]) (sc # rest)"
    unfolding upd len upt by simp
  finally show ?case .
qed

text \<open>
  C6 (as amended). Removing by name from a loaded collection of N records, c of which
  carry the name, hands to \<open>Save\<close> a collection of N - c records (N - 1 when exactly
  one record carries the name), keyed by the dense sequence "0" .. "N-c-1" whatever the
  keys of the loaded collection were; the records whose name differs are the values of
  the result, unchanged and in the order of iteration.
\<close>

theorem remove_shortcut_rekeys:
  "Shortcuts (remove_shortcut name s)
     = zip (map itoa [0..<length (kept_records name s)]) (kept_records name s)
   \<and> length (Shortcuts (remove_shortcut name s))
     = length (Shortcuts s) - length (matching_records name s)
   \<and> map fst (Shortcuts (remove_shortcut name s))
     = map itoa [0..<length (Shortcuts s) - length (matching_records name s)]
   \<and> distinct (map fst (Shortcuts (remove_shortcut name s)))
   \<and> map snd (Shortcuts (remove_shortcut name s)) = kept_records name s"
proof -
  let ?kept = "kept_records name s"
  have r: "Shortcuts (remove_shortcut name s) = zip (map itoa [0..<length ?kept]) ?kept"
    using remove_rekey_loop_eq [of "[]" 0 ?kept]
    by (simp add: remove_shortcut_def remove_filter_loop_eq kept_records_def)
  have len: "length ?kept = length (Shortcuts s) - length (matching_records name s)"
    using sum_length_filter_compl [of "\<lambda>sc. AppName sc = name" "map snd (Shortcuts s)"]
    by (simp add: kept_records_def matching_records_def)
  have inj: "inj_on itoa (set [0..<length ?kept])"
    by (rule inj_onI) (rule itoa_inj)
  show ?thesis
    using r len inj by (simp add: distinct_map)
qed

lemma digit_chars:
  "char_of (48 :: nat) = CHR ''0''" "char_of (49 :: nat) = CHR ''1''"
  "char_of (50 :: nat) = CHR ''2''" "char_of (51 :: nat) = CHR ''3''"
  by code_simp+

lemma itoa_small: "itoa 0 = ''0''" "itoa 1 = ''1''" "itoa 2 = ''2''"
  by (subst itoa.simps, simp add: digit_chars)+

text \<open>
  C6 as stated fails where two records share the name: of three loaded records, keyed
  "0", "2" and "5", two are called Game, and removing Game leaves one record, not two.
\<close>

theorem remove_shortcut_counterexample:
  "length (Shortcuts gapped_shortcuts) = 3
   \<and> Shortcuts (remove_shortcut ''Game'' gapped_shortcuts) =
       [(''0'', \<lparr>Appid = 2, AppName = ''Other'', Exe = ''/b'', StartDir = ''/'', Icon = '''', LaunchOptions = ''''\<rparr>)]
   \<and> length (Shortcuts (remove_shortcut ''Game'' gapped_shortcuts)) \<noteq> 3 - 1"
  by (simp add: gapped_shortcuts_def remove_shortcut_def itoa_small)

subsection \<open>The remote client\<close>

lemma itoa_22: "itoa 22 = ''22''"
  by (subst itoa.simps, simp, subst itoa.simps, simp, code_simp)

lemma dial_address_deck: "dial_address (config (NewClient deck_config)) = ''deck:22''"
  by (simp add: dial_address_def NewClient_def deck_config_def sprint_int_def itoa_22)

lemma default_keys_loop_eq:
  "default_keys_loop env authMethods keyPaths
     = authMethods @ map ssh_PublicKeys (take 1 (List.map_filter (usable_key env) keyPaths))"
  by (induction keyPaths)
     (simp_all add: List.map_filter_simps usable_key_def split: sum.splits)

lemma build_auth_methods_eq: "build_auth_methods env cfg = spec_auth_methods env cfg"
  by (simp add: build_auth_methods_def spec_auth_methods_def configured_key_def usable_key_def
      default_keys_loop_eq split: sum.splits)

lemma Connect_no_methods:
  "spec_auth_methods env (config c) = [] \<Longrightarrow>
   Connect env c = (Some (Errorf ''no authentication method available''), c, [])"
  by (simp add: Connect_def build_auth_methods_eq)

lemma Connect_dials:
  "spec_auth_methods env (config c) \<noteq> [] \<Longrightarrow>
   take 1 (snd (snd (Connect env c)))
     = [Dial (dial_address (config c)) (User (config c)) (spec_auth_methods env (config c))]"
  by (simp add: Connect_def build_auth_methods_eq dial_address_def Let_def split: sum.splits)

text \<open>
  C4. \<open>Connect\<close> builds its authentication methods in the order of the specification:
  the explicit key file if configured and usable, otherwise the first usable key among
  the three default key files, then the password if configured. With an unusable key
  file and a password, the list is the first usable default key, if any, followed by
  the password, and the first thing \<open>Connect\<close> does to the network is to dial with that
  list. With no usable key anywhere and no password, \<open>Connect\<close> fails with "no
  authentication method available", leaves the client as it was and does nothing to
  the network: it never dials.
\<close>

theorem Connect_auth_methods:
  "build_auth_methods env (config c) = spec_auth_methods env (config c)
   \<and> (configured_key env (config c) = None \<and> Password (config c) \<noteq> '''' \<longrightarrow>
        build_auth_methods env (config c)
          = map ssh_PublicKeys (take 1 (List.map_filter (usable_key env) (default_key_paths env)))
            @ [ssh_Password (Password (config c))]
        \<and> take 1 (snd (snd (Connect env c)))
            = [Dial (dial_address (config c)) (User (config c)) (build_auth_methods env (config c))])
   \<and> (configured_key env (config c) = None
        \<and> (\<forall>p \<in> set (default_key_paths env). usable_key env p = None)
        \<and> Password (config c) = '''' \<longrightarrow>
        Connect env c = (Some (Errorf ''no authentication method available''), c, []))"
proof (intro conjI impI)
  show "build_auth_methods env (config c) = spec_auth_methods env (config c)"
    by (rule build_auth_methods_eq)
next
  assume a: "configured_key env (config c) = None \<and> Password (config c) \<noteq> ''''"
  then show "build_auth_methods env (config c)
          = map ssh_PublicKeys (take 1 (List.map_filter (usable_key env) (default_key_paths env)))
            @ [ssh_Password (Password (config c))]"
    by (simp add: build_auth_methods_eq spec_auth_methods_def)
  from a have "spec_auth_methods env (config c) \<noteq> []"
    by (simp add: spec_auth_methods_def)
  then show "take 1 (snd (snd (Connect env c)))
      = [Dial (dial_address (config c)) (User (config c)) (build_auth_methods env (config c))]"
    unfolding build_auth_methods_eq by (rule Connect_dials)
next
  assume a: "configured_key env (config c) = None
        \<and> (\<forall>p \<in> set (default_key_paths env). usable_key env p = None)
        \<and> Password (config c) = ''''"
  then have "List.map_filter (usable_key env) (default_key_paths env) = []"
    by (simp add: List.map_filter_def filter_empty_conv)
  with a have "spec_auth_methods env (config c) = []"
    by (simp add: spec_auth_methods_def)
  then show "Connect env c = (Some (Errorf ''no authentication method available''), c, [])"
    by (rule Connect_no_methods)
qed

lemma deck_no_key: "usable_key (deck_env b) p = None"
  by (simp add: usable_key_def deck_env_def)

theorem Connect_auth_methods_witness:
  "configured_key (deck_env True) (config (NewClient deck_config)) = None
   \<and> Password (config (NewClient deck_config)) \<noteq> ''''
   \<and> build_auth_methods (deck_env True) (config (NewClient deck_config)) = [ssh_Password ''secret'']
   \<and> take 1 (snd (snd (Connect (deck_env True) (NewClient deck_config))))
       = [Dial ''deck:22'' ''deck'' [ssh_Password ''secret'']]
   \<and> configured_key (deck_env True) (config (NewClient (deck_config\<lparr>Password := ''''\<rparr>))) = None
   \<and> map (usable_key (deck_env True)) (default_key_paths (deck_env True)) = [None, None, None]
   \<and> Password (config (NewClient (deck_config\<lparr>Password := ''''\<rparr>))) = ''''
   \<and> Connect (deck_env True) (NewClient (deck_config\<lparr>Password := ''''\<rparr>))
       = (Some (Errorf ''no authentication method available''),
          NewClient (deck_config\<lparr>Password := ''''\<rparr>), [])"
proof -
  have h1: "configured_key (deck_env True) (config (NewClient deck_config)) = None
            \<and> Password (config (NewClient deck_config)) \<noteq> ''''"
    by (simp add: configured_key_def deck_no_key NewClient_def deck_config_def)
  have h2: "configured_key (deck_env True) (config (NewClient (deck_config\<lparr>Password := ''''\<rparr>))) = None
            \<and> (\<forall>p \<in> set (default_key_paths (deck_env True)). usable_key (deck_env True) p = None)
            \<and> Password (config (NewClient (deck_config\<lparr>Password := ''''\<rparr>))) = ''''"
    by (simp add: configured_key_def deck_no_key NewClient_def deck_config_def)
  have s: "spec_auth_methods (deck_env True) (config (NewClient deck_config)) = [ssh_Password ''secret'']"
    by (simp add: spec_auth_methods_def configured_key_def deck_no_key NewClient_def
        deck_config_def List.map_filter_simps default_key_paths_def Let_def)
  have u: "User (config (NewClient deck_config)) = ''deck''"
    by (simp add: NewClient_def deck_config_def)
  have k: "map (usable_key (deck_env True)) (default_key_paths (deck_env True)) = [None, None, None]"
    by (simp add: deck_no_key default_key_paths_def Let_def)
  show ?thesis
    using h1 h2 s u k dial_address_deck
      Connect_auth_methods [of "deck_env True" "NewClient deck_config"]
      Connect_auth_methods [of "deck_env True" "NewClient (deck_config\<lparr>Password := ''''\<rparr>)"]
    by simp
qed

lemma Connect_sftp_failure:
  assumes "spec_auth_methods env (config c) \<noteq> []"
    and "ssh_Dial env (dial_address (config c)) (User (config c)) (spec_auth_methods env (config c)) = Inr conn"
    and "sftp_NewClient env conn = Inl err"
  shows "Connect env c =
           (Some (Wrapf ''failed to create SFTP client'' (Lib err)), c\<lparr>sshClient := Some conn\<rparr>,
            [Dial (dial_address (config c)) (User (config c)) (spec_auth_methods env (config c)),
             SshClose conn])"
  using assms by (simp add: Connect_def build_auth_methods_eq dial_address_def Let_def)

lemma RunCommand_with_handle:
  "sshClient c = Some conn \<Longrightarrow> snd (RunCommand env c command) \<noteq> Some (Errorf ''not connected'')"
  by (simp add: RunCommand_def split: sum.splits prod.splits option.splits)

lemma sftp_gated_not_connected:
  "sftpClient c = None \<Longrightarrow>
   Stat env c p = Inl (Errorf ''not connected'') \<and> ReadDir env c p = Inl (Errorf ''not connected'')
   \<and> GetHomeDir env c = Inl (Errorf ''not connected'') \<and> \<not> FileExists env c p"
  by (simp add: Stat_def ReadDir_def GetHomeDir_def FileExists_def)

text \<open>
  C3. When the dial succeeds and the SFTP subsystem fails, \<open>Connect\<close> returns an error
  and closes the connection (lemma \<open>Connect_sftp_failure\<close>), and the operations gated on
  the SFTP handle report "not connected" (lemma \<open>sftp_gated_not_connected\<close>). But the
  closed connection stays in \<open>sshClient\<close>, which was assigned before the subsystem was
  opened, so \<open>RunCommand\<close> passes its check and fails on the closed connection with a
  session error instead of "not connected" (lemma \<open>RunCommand_with_handle\<close>, for every
  environment). Here: a client reached by password, the subsystem request refused.
\<close>

theorem Connect_sftp_failure_keeps_ssh_handle:
  "Connect (deck_env False) (NewClient deck_config)
     = (Some (Wrapf ''failed to create SFTP client'' (Lib ''subsystem request failed'')),
        (NewClient deck_config)\<lparr>sshClient := Some 1\<rparr>,
        [Dial ''deck:22'' ''deck'' [ssh_Password ''secret''], SshClose 1])
   \<and> RunCommand (deck_env False) ((NewClient deck_config)\<lparr>sshClient := Some 1\<rparr>) ''true''
     = ('''', Some (Wrapf ''failed to create session'' (Lib ''use of closed network connection'')))
   \<and> Stat (deck_env False) ((NewClient deck_config)\<lparr>sshClient := Some 1\<rparr>) ''/home/deck''
     = Inl (Errorf ''not connected'')"
proof -
  have s: "spec_auth_methods (deck_env False) (config (NewClient deck_config)) = [ssh_Password ''secret'']"
    by (simp add: spec_auth_methods_def configured_key_def deck_no_key NewClient_def
        deck_config_def List.map_filter_simps default_key_paths_def Let_def)
  have u: "User (config (NewClient deck_config)) = ''deck''"
    by (simp add: NewClient_def deck_config_def)
  have d: "ssh_Dial (deck_env False) a b m = Inr 1" for a b m
    by (simp add: deck_env_def)
  have n: "sftp_NewClient (deck_env False) 1 = Inl ''subsystem request failed''"
    by (simp add: deck_env_def)
  have "Connect (deck_env False) (NewClient deck_config)
     = (Some (Wrapf ''failed to create SFTP client'' (Lib ''subsystem request failed'')),
        (NewClient deck_config)\<lparr>sshClient := Some 1\<rparr>,
        [Dial ''deck:22'' ''deck'' [ssh_Password ''secret''], SshClose 1])"
    using Connect_sftp_failure [of "deck_env False" "NewClient deck_config" 1, OF _ d n]
    by (simp add: s u dial_address_deck)
  moreover have "RunCommand (deck_env False) ((NewClient deck_config)\<lparr>sshClient := Some 1\<rparr>) ''true''
     = ('''', Some (Wrapf ''failed to create session'' (Lib ''use of closed network connection'')))"
    by (simp add: RunCommand_def deck_env_def)
  moreover have "Stat (deck_env False) ((NewClient deck_config)\<lparr>sshClient := Some 1\<rparr>) ''/home/deck''
     = Inl (Errorf ''not connected'')"
    by (simp add: Stat_def NewClient_def)
  ultimately show ?thesis by simp
qed

text \<open>
  C5. \<open>FileExists\<close> is a total function to \<open>bool\<close>: it is true exactly when \<open>Stat\<close>
  succeeds, false exactly when \<open>Stat\<close> fails with whatever error, true exactly when
  the client holds an SFTP handle on which the underlying stat succeeds, and false for
  a client that is not connected.
\<close>

theorem FileExists_never_fails:
  "FileExists env c p = (\<exists>info. Stat env c p = Inr info)
   \<and> (\<not> FileExists env c p) = (\<exists>err. Stat env c p = Inl err)
   \<and> FileExists env c p = (\<exists>sub info. sftpClient c = Some sub \<and> sftp_Stat env sub p = Inr info)
   \<and> \<not> FileExists env (c\<lparr>sftpClient := None\<rparr>) p"
  by (auto simp: FileExists_def Stat_def split: sum.splits option.splits)

lemma users_loop_eq: "users_loop users files = users @ map Name (filter IsDir files)"
  by (induction users files rule: users_loop.induct) simp_all

text \<open>
  C9. When the userdata directory resolves and its listing succeeds, \<open>GetRemoteUsers\<close>
  returns exactly the names of the entries that are directories, in listing order. The
  example after it is a userdata directory with two subdirectories and one regular file.
\<close>

theorem GetRemoteUsers_lists_directories:
  assumes "GetRemoteUserDir env (Some c) = Inr userDir"
    and "ReadDir env c userDir = Inr files"
  shows "GetRemoteUsers env (Some c) = Inr (map Name (filter IsDir files))"
  using assms by (simp add: GetRemoteUsers_def users_loop_eq)

theorem GetRemoteUsers_lists_directories_witness:
  "GetRemoteUserDir (deck_env True) (Some deck_client) = Inr ''/home/deck/.steam/steam/userdata''
   \<and> ReadDir (deck_env True) deck_client ''/home/deck/.steam/steam/userdata'' = Inr deck_files
   \<and> GetRemoteUsers (deck_env True) (Some deck_client) = Inr [''111'', ''222'']"
proof -
  have h1: "GetRemoteUserDir (deck_env True) (Some deck_client) = Inr ''/home/deck/.steam/steam/userdata''"
    by (simp add: GetRemoteUserDir_def GetRemoteBaseDir_def GetHomeDir_def deck_client_def
        deck_env_def slash_join_def)
  have h2: "ReadDir (deck_env True) deck_client ''/home/deck/.steam/steam/userdata'' = Inr deck_files"
    by (simp add: ReadDir_def deck_client_def deck_env_def)
  show ?thesis
    using h1 h2 GetRemoteUsers_lists_directories [OF h1 h2]
    by (simp add: deck_files_def)
qed

subsection \<open>Artwork from SteamGridDB\<close>

lemma first_url_no_result: "\<not> has_result r \<Longrightarrow> first_url r = ''''"
  by (simp add: has_result_def first_url_def split: sum.splits list.splits)

lemma fetch_step:
  "(case r of Inr resp \<Rightarrow> if length (Data resp) > 0 then f (URL (Data resp ! 0)) else cfg
            | Inl err \<Rightarrow> cfg)
   = (if has_result r then f (first_url r) else cfg)"
  by (simp add: has_result_def first_url_def split: sum.splits list.splits)

text \<open>
  C10. \<open>FetchArtworkConfig\<close> always returns a configuration and a nil error, whatever
  the five fetches answer: each slot holds the URL of the first result of its fetch, and
  the empty string when the fetch failed or returned no result.
\<close>

theorem FetchArtworkConfig_total:
  "FetchArtworkConfig c gameID =
     Inr \<lparr>GridPortrait = first_url (GetGrids c gameID FilterGridVertical),
          GridLandscape = first_url (GetGrids c gameID FilterGridHorizontal),
          HeroImage = first_url (GetHeroes c gameID),
          LogoImage = first_url (GetLogos c gameID),
          IconImage = first_url (GetIcons c gameID)\<rparr>"
proof -
  have p: "(case r of Inr resp \<Rightarrow> if length (Data resp) > 0 then cfg\<lparr>GridPortrait := URL (Data resp ! 0)\<rparr> else cfg
            | Inl err \<Rightarrow> cfg)
      = (if has_result r then cfg\<lparr>GridPortrait := first_url r\<rparr> else cfg)" for r and cfg :: ArtworkConfig
    by (rule fetch_step [where f = "\<lambda>u. cfg\<lparr>GridPortrait := u\<rparr>"])
  have l: "(case r of Inr resp \<Rightarrow> if length (Data resp) > 0 then cfg\<lparr>GridLandscape := URL (Data resp ! 0)\<rparr> else cfg
            | Inl err \<Rightarrow> cfg)
      = (if has_result r then cfg\<lparr>GridLandscape := first_url r\<rparr> else cfg)" for r and cfg :: ArtworkConfig
    by (rule fetch_step [where f = "\<lambda>u. cfg\<lparr>GridLandscape := u\<rparr>"])
  have h: "(case r of Inr resp \<Rightarrow> if length (Data resp) > 0 then cfg\<lparr>HeroImage := URL (Data resp ! 0)\<rparr> else cfg
            | Inl err \<Rightarrow> cfg)
      = (if has_result r then cfg\<lparr>HeroImage := first_url r\<rparr> else cfg)" for r and cfg :: ArtworkConfig
    by (rule fetch_step [where f = "\<lambda>u. cfg\<lparr>HeroImage := u\<rparr>"])
  have g: "(case r of Inr resp \<Rightarrow> if length (Data resp) > 0 then cfg\<lparr>LogoImage := URL (Data resp ! 0)\<rparr> else cfg
            | Inl err \<Rightarrow> cfg)
      = (if has_result r then cfg\<lparr>LogoImage := first_url r\<rparr> else cfg)" for r and cfg :: ArtworkConfig
    by (rule fetch_step [where f = "\<lambda>u. cfg\<lparr>LogoImage := u\<rparr>"])
  have i: "(case r of Inr resp \<Rightarrow> if length (Data resp) > 0 then cfg\<lparr>IconImage := URL (Data resp ! 0)\<rparr> else cfg
            | Inl err \<Rightarrow> cfg)
      = (if has_result r then cfg\<lparr>IconImage := first_url r\<rparr> else cfg)" for r and cfg :: ArtworkConfig
    by (rule fetch_step [where f = "\<lambda>u. cfg\<lparr>IconImage := u\<rparr>"])
  show ?thesis
    unfolding FetchArtworkConfig_def Let_def p l h g i
    by (simp add: first_url_no_result)
qed

subsection \<open>Applying artwork\<close>

lemma itoa_7: "itoa 7 = ''7''"
  by (subst itoa.simps, simp, code_simp)


lemma getGridPath_desktop: "getGridPath desktop_env = Inr ''/home/me/.steam/steam/userdata/111/config/grid''"
  by (simp add: getGridPath_def IsRemote_def desktop_env_def slash_join_def)

lemma check_desktop: "checkAiohttpAvailable desktop_env"
  by (simp add: checkAiohttpAvailable_def runCommand_def desktop_env_def strings_Contains_def)

lemma slot_processed_mono:
  "set t \<subseteq> set t' \<Longrightarrow> slot_processed env appID gridPath t slot
     \<Longrightarrow> slot_processed env appID gridPath t' slot"
  by (auto simp: slot_processed_def upload_done_def split: option.splits if_splits)

lemma applyOne_processes:
  "slot_processed env appID gridPath
     (applyOne env (checkAiohttpAvailable env) gridPath appID url baseName assetType)
     (url, baseName, assetType)"
  by (cases "checkAiohttpAvailable env"; cases "SetArtworkViaCEF env appID url assetType";
      cases "uploadArtworkToGrid env url gridPath baseName")
     (simp_all add: slot_processed_def upload_done_def applyOne_def)

lemma getGridPath_no_users:
  "no_users (discovered_users env) \<Longrightarrow> getGridPath env = Inl (Errorf ''no Steam users found'')"
  by (cases "IsRemote env")
     (auto simp: no_users_def discovered_users_def getGridPath_def split: sum.splits)

lemma getGridPath_users:
  "\<not> no_users (discovered_users env) \<Longrightarrow>
   getGridPath env =
     (if IsRemote env
      then Inr (path_Join env
                 [case GetRemoteUserDir env (RemoteClient env) of Inl err \<Rightarrow> '''' | Inr dir \<Rightarrow> dir,
                  (case discovered_users env of Inr users \<Rightarrow> users ! 0 | Inl err \<Rightarrow> ''''),
                  ''config'', ''grid''])
      else (case GetUserDir env of
              Inl err \<Rightarrow> Inl err
            | Inr userDir \<Rightarrow>
                Inr (path_Join env
                      [userDir, (case discovered_users env of Inr users \<Rightarrow> users ! 0 | Inl err \<Rightarrow> ''''),
                       ''config'', ''grid''])))"
  by (cases "IsRemote env")
     (auto simp: no_users_def discovered_users_def getGridPath_def Let_def split: sum.splits)

lemma SetArtwork_error:
  "fst (SetArtwork env appID (Some artwork)) =
     (case getGridPath env of
        Inl err \<Rightarrow> Some (Wrapf ''failed to get grid path'' err)
      | Inr gridPath \<Rightarrow> None)"
  by (simp add: SetArtwork_def Let_def split: sum.splits)

lemma SetArtwork_trace:
  assumes "getGridPath env = Inr gridPath"
  shows "list_all (slot_processed env appID gridPath (snd (SetArtwork env appID (Some artwork))))
           (artwork_slots appID artwork)
         \<and> icon_processed env appID gridPath (snd (SetArtwork env appID (Some artwork))) artwork"
proof -
  let ?cu = "checkAiohttpAvailable env"
  let ?id = "itoa (unat appID)"
  define p where "p = applyOne env ?cu gridPath appID (GridPortrait artwork) (?id @ ''p'') AssetTypeGridPortrait"
  define l where "l = applyOne env ?cu gridPath appID (GridLandscape artwork) ?id AssetTypeGridLandscape"
  define h where "h = applyOne env ?cu gridPath appID (HeroImage artwork) (?id @ ''_hero'') AssetTypeHero"
  define g where "g = applyOne env ?cu gridPath appID (LogoImage artwork) (?id @ ''_logo'') AssetTypeLogo"
  obtain info icon where
    t: "snd (SetArtwork env appID (Some artwork)) = info @ p @ l @ h @ g @ icon"
    and i: "icon_processed env appID gridPath icon artwork"
    using assms
    by (simp add: SetArtwork_def Let_def p_def l_def h_def g_def icon_processed_def
        split: option.splits)
  have "slot_processed env appID gridPath p (GridPortrait artwork, ?id @ ''p'', AssetTypeGridPortrait)"
    unfolding p_def by (rule applyOne_processes)
  then have 1: "slot_processed env appID gridPath (info @ p @ l @ h @ g @ icon)
                  (GridPortrait artwork, ?id @ ''p'', AssetTypeGridPortrait)"
    by (rule slot_processed_mono [rotated]) auto
  have "slot_processed env appID gridPath l (GridLandscape artwork, ?id, AssetTypeGridLandscape)"
    unfolding l_def by (rule applyOne_processes)
  then have 2: "slot_processed env appID gridPath (info @ p @ l @ h @ g @ icon)
                  (GridLandscape artwork, ?id, AssetTypeGridLandscape)"
    by (rule slot_processed_mono [rotated]) auto
  have "slot_processed env appID gridPath h (HeroImage artwork, ?id @ ''_hero'', AssetTypeHero)"
    unfolding h_def by (rule applyOne_processes)
  then have 3: "slot_processed env appID gridPath (info @ p @ l @ h @ g @ icon)
                  (HeroImage artwork, ?id @ ''_hero'', AssetTypeHero)"
    by (rule slot_processed_mono [rotated]) auto
  have "slot_processed env appID gridPath g (LogoImage artwork, ?id @ ''_logo'', AssetTypeLogo)"
    unfolding g_def by (rule applyOne_processes)
  then have 4: "slot_processed env appID gridPath (info @ p @ l @ h @ g @ icon)
                  (LogoImage artwork, ?id @ ''_logo'', AssetTypeLogo)"
    by (rule slot_processed_mono [rotated]) auto
  from i have 5: "icon_processed env appID gridPath (info @ p @ l @ h @ g @ icon) artwork"
    by (auto simp: icon_processed_def split: option.splits)
  show ?thesis
    unfolding t artwork_slots_def using 1 2 3 4 5 by simp
qed

text \<open>
  C7 (as amended). \<open>SetArtwork\<close> with an absent configuration returns nil and does
  nothing. With a configuration it returns an error exactly when \<open>getGridPath\<close> fails,
  wrapping that error: "no Steam users found" when no user is discoverable; otherwise,
  in remote mode the grid path always resolves, and in local mode it resolves exactly
  when \<open>GetUserDir\<close> succeeds. No failure of a slot is an error of the call: when the
  grid path resolves, each of the four slots with a URL was processed (injected through
  the Steam API, or else uploaded, every failure being printed) and the icon, when it
  has a URL, was uploaded likewise, whatever happened to the other slots.
\<close>

theorem SetArtwork_error_policy:
  "SetArtwork env appID None = (None, [])
   \<and> fst (SetArtwork env appID (Some artwork)) =
       (case getGridPath env of
          Inl err \<Rightarrow> Some (Wrapf ''failed to get grid path'' err)
        | Inr gridPath \<Rightarrow> None)
   \<and> (no_users (discovered_users env) \<longrightarrow>
        getGridPath env = Inl (Errorf ''no Steam users found''))
   \<and> (\<not> no_users (discovered_users env) \<and> IsRemote env \<longrightarrow> (\<exists>gridPath. getGridPath env = Inr gridPath))
   \<and> (\<not> no_users (discovered_users env) \<and> \<not> IsRemote env \<longrightarrow>
        (\<exists>gridPath. getGridPath env = Inr gridPath) = (\<exists>userDir. GetUserDir env = Inr userDir))
   \<and> (getGridPath env = Inr gridPath \<longrightarrow>
        list_all (slot_processed env appID gridPath (snd (SetArtwork env appID (Some artwork))))
          (artwork_slots appID artwork)
        \<and> icon_processed env appID gridPath (snd (SetArtwork env appID (Some artwork))) artwork)"
proof (intro conjI impI)
  show "SetArtwork env appID None = (None, [])"
    by (simp add: SetArtwork_def)
  show "fst (SetArtwork env appID (Some artwork)) =
       (case getGridPath env of
          Inl err \<Rightarrow> Some (Wrapf ''failed to get grid path'' err)
        | Inr gridPath \<Rightarrow> None)"
    by (rule SetArtwork_error)
  show "getGridPath env = Inl (Errorf ''no Steam users found'')" if "no_users (discovered_users env)"
    using that by (rule getGridPath_no_users)
  show "\<exists>gridPath. getGridPath env = Inr gridPath"
    if "\<not> no_users (discovered_users env) \<and> IsRemote env"
    using that getGridPath_users [of env] by simp
  show "(\<exists>gridPath. getGridPath env = Inr gridPath) = (\<exists>userDir. GetUserDir env = Inr userDir)"
    if "\<not> no_users (discovered_users env) \<and> \<not> IsRemote env"
    using that getGridPath_users [of env] by (auto split: sum.splits)
  show "list_all (slot_processed env appID gridPath (snd (SetArtwork env appID (Some artwork))))
          (artwork_slots appID artwork)" if "getGridPath env = Inr gridPath"
    using SetArtwork_trace [OF that] by simp
  show "icon_processed env appID gridPath (snd (SetArtwork env appID (Some artwork))) artwork"
    if "getGridPath env = Inr gridPath"
    using SetArtwork_trace [OF that] by simp
qed

text \<open>
  C7 as stated fails for an absent configuration: the guard at the head of
  \<open>SetArtwork\<close> returns nil, not an error.
\<close>

theorem SetArtwork_absent_config_counterexample:
  "fst (SetArtwork desktop_env 7 None) = None"
  by (simp add: SetArtwork_def)

lemma desktop_users: "\<not> no_users (discovered_users desktop_env) \<and> \<not> IsRemote desktop_env"
  by (simp add: no_users_def discovered_users_def IsRemote_def desktop_env_def)

theorem SetArtwork_error_policy_witness:
  "\<not> no_users (discovered_users desktop_env) \<and> \<not> IsRemote desktop_env
   \<and> getGridPath desktop_env = Inr ''/home/me/.steam/steam/userdata/111/config/grid''
   \<and> fst (SetArtwork desktop_env 7 (Some desktop_artwork)) = None
   \<and> list_all (slot_processed desktop_env 7 ''/home/me/.steam/steam/userdata/111/config/grid''
                (snd (SetArtwork desktop_env 7 (Some desktop_artwork))))
        (artwork_slots 7 desktop_artwork)
   \<and> icon_processed desktop_env 7 ''/home/me/.steam/steam/userdata/111/config/grid''
        (snd (SetArtwork desktop_env 7 (Some desktop_artwork))) desktop_artwork
   \<and> no_users (discovered_users (desktop_env\<lparr>GetUsers := Inr []\<rparr>))
   \<and> fst (SetArtwork (desktop_env\<lparr>GetUsers := Inr []\<rparr>) 7 (Some desktop_artwork))
       = Some (Wrapf ''failed to get grid path'' (Errorf ''no Steam users found''))"
proof -
  have n: "no_users (discovered_users (desktop_env\<lparr>GetUsers := Inr []\<rparr>))"
    by (simp add: no_users_def discovered_users_def IsRemote_def desktop_env_def)
  show ?thesis
    using desktop_users getGridPath_desktop n
      SetArtwork_error_policy [of desktop_env 7 desktop_artwork
        "''/home/me/.steam/steam/userdata/111/config/grid''"]
      SetArtwork_error_policy [of "desktop_env\<lparr>GetUsers := Inr []\<rparr>" 7 desktop_artwork "''''"]
    by simp
qed

end
